theory Spec2Isabelle
  imports Main "HOL-Library.Word" "HOL-Library.Sublist"
begin

unbundle bit_operations_syntax

section \<open>Client tools self-update: installer, directory lock and entry point\<close>

text \<open>
  The sources are three Go files: the POSIX directory lock (\<^verbatim>\<open>lock\<close>, build tag
  \<^verbatim>\<open>!windows\<close>), the entry point of the integration binary (\<^verbatim>\<open>main\<close>) and the
  Windows installer and directory lock (\<^verbatim>\<open>replace\<close>, \<^verbatim>\<open>lock\<close>, build tag
  \<^verbatim>\<open>windows\<close>). Every function works on the operating system, so each is embedded as
  a function from the state of the operating system to a result and the new state. A Go
  \<^verbatim>\<open>error\<close> that may be \<^verbatim>\<open>nil\<close> is an \<open>error option\<close>, a function value that may be
  \<^verbatim>\<open>nil\<close> is a \<open>release option\<close>. What the operating system or a library decides on
  its own (a failing system call, a random file name, the bytes of an archive) is a field
  of an environment record, so that every theorem holds for every such decision.
\<close>

subsection \<open>Errors\<close>

datatype error =
    Errno nat                \<comment> \<open>\<^verbatim>\<open>syscall.Errno\<close> / \<^verbatim>\<open>windows.Errno\<close>, by number\<close>
  | Failure string           \<comment> \<open>any other error value of a library, by its message\<close>
  | ErrPatternHasSeparator   \<comment> \<open>package os: \<^verbatim>\<open>pattern contains path separator\<close>\<close>
  | ErrLocked                \<comment> \<open>\<^verbatim>\<open>trace.BadParameter("update is locked by another process")\<close>\<close>
  | Traced error             \<comment> \<open>\<^verbatim>\<open>trace.Wrap(err)\<close> of a non-nil \<^verbatim>\<open>err\<close>\<close>

definition ENOENT :: nat where "ENOENT = 2"
definition EEXIST :: nat where "EEXIST = 17"

subsection \<open>Paths\<close>

type_synonym path = string

text \<open>Windows: \<^verbatim>\<open>os.PathSeparator\<close> is the backslash, and \<^verbatim>\<open>os.IsPathSeparator\<close> accepts
  the backslash and the slash.\<close>

definition PathSeparator :: char where
  "PathSeparator = CHR 0x5C"

definition IsPathSeparator :: "char \<Rightarrow> bool" where
  "IsPathSeparator c = (c = CHR 0x5C \<or> c = CHR ''/'')"

text \<open>\<^verbatim>\<open>filepath.Join(dir, name)\<close> for the paths the program joins: a directory and one
  clean element. Join drops an empty element and otherwise puts one separator between the
  two; its final \<^verbatim>\<open>Clean\<close> is the identity on a clean directory followed by a clean
  element, and is not modelled.\<close>

definition filepath_Join :: "char \<Rightarrow> path \<Rightarrow> string \<Rightarrow> path" where
  "filepath_Join sep dir name =
     (if dir = [] then name else if name = [] then dir else dir @ [sep] @ name)"

text \<open>Package os, \<^verbatim>\<open>joinPath\<close>: the helper of \<^verbatim>\<open>MkdirTemp\<close> and \<^verbatim>\<open>CreateTemp\<close>.\<close>

definition joinPath :: "path \<Rightarrow> string \<Rightarrow> path" where
  "joinPath dir name =
     (if dir \<noteq> [] \<and> IsPathSeparator (last dir) then dir @ name
      else dir @ [PathSeparator] @ name)"

text \<open>Package os, \<^verbatim>\<open>prefixAndSuffix\<close>: a pattern with a path separator is refused; the
  pattern is split at its last \<^verbatim>\<open>*\<close>, and is all prefix when it has none.\<close>

fun lastIndexByte :: "string \<Rightarrow> char \<Rightarrow> nat option" where
  "lastIndexByte [] c = None"
| "lastIndexByte (x # xs) c =
     (case lastIndexByte xs c of
        Some i \<Rightarrow> Some (Suc i)
      | None \<Rightarrow> if x = c then Some 0 else None)"

definition prefixAndSuffix :: "string \<Rightarrow> error + (string \<times> string)" where
  "prefixAndSuffix pattern =
     (if list_ex IsPathSeparator pattern then Inl ErrPatternHasSeparator
      else case lastIndexByte pattern (CHR ''*'') of
             Some pos \<Rightarrow> Inr (take pos pattern, drop (Suc pos) pattern)
           | None \<Rightarrow> Inr (pattern, []))"

text \<open>The base name of an archive entry, as \<^verbatim>\<open>filepath.Base\<close> computes it for a name
  without a volume: trailing separators are stripped, then everything up to the last
  separator; the empty name gives \<^verbatim>\<open>.\<close> and a name of separators only gives one
  separator.\<close>

definition stripTrailing :: "string \<Rightarrow> string" where
  "stripTrailing p = rev (dropWhile IsPathSeparator (rev p))"

definition Base :: "string \<Rightarrow> string" where
  "Base p =
     (if p = [] then ''.''
      else let q = stripTrailing p;
               b = rev (takeWhile (\<lambda>c. \<not> IsPathSeparator c) (rev q))
           in if q = [] then [PathSeparator] else b)"

subsection \<open>The Windows file system\<close>

record file_data =
  content :: string
  mode :: nat

text \<open>An open handle of a file: the path it was opened on, the access it was granted, the
  sharing it allows to later opens, and whether child processes inherit it.\<close>

record win_handle =
  h_path :: path
  h_access :: "32 word"
  h_share :: "32 word"
  h_inherit :: bool

record winos =
  files :: "path \<rightharpoonup> file_data"
  dirs :: "path set"
  handles :: "(nat \<times> win_handle) list"
  next_handle :: nat

subsection \<open>The installer: \<^verbatim>\<open>replace\<close> (Windows)\<close>

text \<open>An entry of the archive (\<^verbatim>\<open>zip.File\<close>): its name, what \<^verbatim>\<open>Open\<close> answers, the
  bytes its reader yields, and the error the reader ends with instead of \<^verbatim>\<open>io.EOF\<close>
  (a checksum mismatch for instance).\<close>

record zip_file =
  Name :: string
  open_err :: "error option"
  body :: string
  read_err :: "error option"

text \<open>What the run of \<^verbatim>\<open>replace\<close> does not decide. \<^verbatim>\<open>toolsDir\<close> is a function of the
  package whose source is not part of the development: its result is a parameter. Faults
  are errors a call reports for a reason outside the model (permissions, a full disk).
  The calls inside the loop are numbered by the count of entries extracted so far.
  \<^verbatim>\<open>MkdirTemp\<close> and \<^verbatim>\<open>CreateTemp\<close> try random names until one is new (ten thousand
  times at most); \<open>mkdirTemp_random\<close> and \<open>createTemp_random\<close> give the string of the
  last try, so a name that exists already is the error of the exhausted retries.\<close>

record replace_env =
  open_fault :: "error option"
  stat_fault :: "error option"
  zip_NewReader :: "string \<Rightarrow> error + zip_file list"
  toolsDir :: "error + path"
  TempDir :: path
  mkdirTemp_fault :: "error option"
  mkdirTemp_random :: string
  createTemp_fault :: "nat \<Rightarrow> error option"
  createTemp_random :: "nat \<Rightarrow> string"
  chmod_fault :: "nat \<Rightarrow> error option"
  write_fault :: "nat \<Rightarrow> (nat \<times> error) option"

definition exists_path :: "winos \<Rightarrow> path \<Rightarrow> bool" where
  "exists_path s p = (p \<in> dirs s \<or> files s p \<noteq> None)"

text \<open>\<^verbatim>\<open>os.Open(path)\<close>, then reading the whole file: the bytes of a regular file.\<close>

definition os_Open :: "replace_env \<Rightarrow> path \<Rightarrow> winos \<Rightarrow> error + string" where
  "os_Open env p s =
     (case open_fault env of
        Some err \<Rightarrow> Inl err
      | None \<Rightarrow> (case files s p of
                   None \<Rightarrow> Inl (Errno ENOENT)
                 | Some f \<Rightarrow> Inr (content f)))"

text \<open>\<^verbatim>\<open>os.MkdirTemp(dir, pattern)\<close>: a new directory \<^verbatim>\<open>dir/prefix<random>suffix\<close>, in
  \<^verbatim>\<open>os.TempDir()\<close> when \<^verbatim>\<open>dir\<close> is empty. The parent must exist.\<close>

definition os_MkdirTemp :: "replace_env \<Rightarrow> path \<Rightarrow> string \<Rightarrow> winos \<Rightarrow> error + (path \<times> winos)" where
  "os_MkdirTemp env dir pattern s =
     (let dir' = (if dir = [] then TempDir env else dir) in
      case prefixAndSuffix pattern of
        Inl err \<Rightarrow> Inl err
      | Inr (pfx, sfx) \<Rightarrow>
          (let name = joinPath dir' pfx @ mkdirTemp_random env @ sfx in
           case mkdirTemp_fault env of
             Some err \<Rightarrow> Inl err
           | None \<Rightarrow>
               if dir' \<notin> dirs s then Inl (Errno ENOENT)
               else if exists_path s name then Inl (Errno EEXIST)
               else Inr (name, s\<lparr>dirs := insert name (dirs s)\<rparr>)))"

text \<open>\<^verbatim>\<open>os.CreateTemp(dir, pattern)\<close>: a new, empty file \<^verbatim>\<open>dir/prefix<random>suffix\<close>
  of mode 0600, opened with \<^verbatim>\<open>O_RDWR|O_CREATE|O_EXCL\<close>.\<close>

definition os_CreateTemp :: "replace_env \<Rightarrow> nat \<Rightarrow> path \<Rightarrow> string \<Rightarrow> winos \<Rightarrow> error + (path \<times> winos)" where
  "os_CreateTemp env k dir pattern s =
     (let dir' = (if dir = [] then TempDir env else dir) in
      case prefixAndSuffix pattern of
        Inl err \<Rightarrow> Inl err
      | Inr (pfx, sfx) \<Rightarrow>
          (let name = joinPath dir' pfx @ createTemp_random env k @ sfx in
           case createTemp_fault env k of
             Some err \<Rightarrow> Inl err
           | None \<Rightarrow>
               if dir' \<notin> dirs s then Inl (Errno ENOENT)
               else if exists_path s name then Inl (Errno EEXIST)
               else Inr (name, s\<lparr>files := (files s)(name \<mapsto> \<lparr>content = [], mode = 6 * 64\<rparr>)\<rparr>)))"

text \<open>\<^verbatim>\<open>os.Chmod(name, mode)\<close>.\<close>

definition os_Chmod :: "replace_env \<Rightarrow> nat \<Rightarrow> path \<Rightarrow> nat \<Rightarrow> winos \<Rightarrow> error + winos" where
  "os_Chmod env k name m s =
     (case chmod_fault env k of
        Some err \<Rightarrow> Inl err
      | None \<Rightarrow> (case files s name of
                   None \<Rightarrow> Inl (Errno ENOENT)
                 | Some f \<Rightarrow> Inr (s\<lparr>files := (files s)(name \<mapsto> f\<lparr>mode := m\<rparr>)\<rparr>)))"

text \<open>Writing to the open temporary file appends to it.\<close>

definition append_file :: "path \<Rightarrow> string \<Rightarrow> winos \<Rightarrow> winos" where
  "append_file name bytes s =
     (case files s name of
        None \<Rightarrow> s
      | Some f \<Rightarrow> s\<lparr>files := (files s)(name \<mapsto> f\<lparr>content := content f @ bytes\<rparr>)\<rparr>)"

text \<open>\<^verbatim>\<open>io.Copy(t, rr)\<close>: the bytes of the entry are written to the file until a write
  fails (after \<open>n\<close> bytes) or the reader ends, with its error if it has one.\<close>

definition io_Copy :: "replace_env \<Rightarrow> nat \<Rightarrow> path \<Rightarrow> zip_file \<Rightarrow> winos \<Rightarrow> error option \<times> winos" where
  "io_Copy env k t r s =
     (case write_fault env k of
        Some (n, err) \<Rightarrow> (Some err, append_file t (take n (body r)) s)
      | None \<Rightarrow> (read_err r, append_file t (body r) s))"

text \<open>The body of the loop of \<^verbatim>\<open>replace\<close> for an entry that is not skipped: the
  entry is opened, a temporary file is made in the staging directory with the
  destination path as its pattern, made executable (mode 0755) and filled. The deferred
  \<^verbatim>\<open>rr.Close()\<close> touches no file. The renaming of the temporary file onto its
  destination is commented out in the source, so the body ends with the copy.\<close>

definition replace_entry :: "replace_env \<Rightarrow> path \<Rightarrow> path \<Rightarrow> nat \<Rightarrow> zip_file \<Rightarrow> winos \<Rightarrow> error option \<times> winos" where
  "replace_entry env dir tempDir k r s =
     (case open_err r of
        Some err \<Rightarrow> (Some (Traced err), s)
      | None \<Rightarrow>
          (let dest = filepath_Join PathSeparator dir (Name r) in
           case os_CreateTemp env k tempDir dest s of
             Inl err \<Rightarrow> (Some (Traced err), s)
           | Inr (t, s1) \<Rightarrow>
               (case os_Chmod env k t (7 * 64 + 5 * 8 + 5) s1 of
                  Inl err \<Rightarrow> (Some (Traced err), s1)
                | Inr s2 \<Rightarrow>
                    (case io_Copy env k t r s2 of
                       (Some err, s3) \<Rightarrow> (Some (Traced err), s3)
                     | (None, s3) \<Rightarrow> (None, s3)))))"

text \<open>The loop over \<^verbatim>\<open>zipReader.File\<close>: an entry whose name is neither \<^verbatim>\<open>tsh.exe\<close>
  nor \<^verbatim>\<open>tctl.exe\<close> is skipped; the first error ends the function.\<close>

fun replace_loop :: "replace_env \<Rightarrow> path \<Rightarrow> path \<Rightarrow> nat \<Rightarrow> zip_file list \<Rightarrow> winos \<Rightarrow> error option \<times> winos" where
  "replace_loop env dir tempDir k [] s = (None, s)"
| "replace_loop env dir tempDir k (r # rs) s =
     (if Name r \<noteq> ''tsh.exe'' \<and> Name r \<noteq> ''tctl.exe'' then replace_loop env dir tempDir k rs s
      else case replace_entry env dir tempDir k r s of
             (Some err, s1) \<Rightarrow> (Some err, s1)
           | (None, s1) \<Rightarrow> replace_loop env dir tempDir (Suc k) rs s1)"

text \<open>The part of \<^verbatim>\<open>replace\<close> before the loop: the archive is opened and read, the tools
  directory is asked for, and the staging directory \<^verbatim>\<open>temp-tools-dir<random>\<close> is made
  in it. The result is the entries, the tools directory, the staging directory and the
  state with the staging directory.\<close>

definition replace_stage :: "replace_env \<Rightarrow> path \<Rightarrow> winos \<Rightarrow> error + (zip_file list \<times> path \<times> path \<times> winos)" where
  "replace_stage env p s =
     (case os_Open env p s of
        Inl err \<Rightarrow> Inl (Traced err)
      | Inr bytes \<Rightarrow>
     (case stat_fault env of
        Some err \<Rightarrow> Inl (Traced err)
      | None \<Rightarrow>
     (case zip_NewReader env bytes of
        Inl err \<Rightarrow> Inl (Traced err)
      | Inr zs \<Rightarrow>
     (case toolsDir env of
        Inl err \<Rightarrow> Inl (Traced err)
      | Inr dir \<Rightarrow>
     (case os_MkdirTemp env dir ''temp-tools-dir'' s of
        Inl err \<Rightarrow> Inl (Traced err)
      | Inr (tempDir, s1) \<Rightarrow> Inr (zs, dir, tempDir, s1))))))"

definition replace :: "replace_env \<Rightarrow> path \<Rightarrow> winos \<Rightarrow> error option \<times> winos" where
  "replace env p s =
     (case replace_stage env p s of
        Inl err \<Rightarrow> (Some err, s)
      | Inr (zs, dir, tempDir, s1) \<Rightarrow> replace_loop env dir tempDir 0 zs s1)"

subsection \<open>The entry point: \<^verbatim>\<open>main\<close>\<close>

text \<open>\<^verbatim>\<open>update.CheckLocal\<close>, \<^verbatim>\<open>update.Download\<close> and \<^verbatim>\<open>update.Exec\<close> are functions of
  the package whose source is not part of the development: what they return is a
  parameter, next to the arguments of the process and the version the binary was linked
  with.\<close>

record main_env =
  CheckLocal :: "string \<times> bool"
  Download :: "string \<Rightarrow> error option"
  Exec :: "int \<times> error option"
  Args :: "string list"
  Version :: string

text \<open>What an observer sees of a run: the calls into the update package, the lines on
  standard output, the line of \<^verbatim>\<open>log.Fatalf\<close>; and how the process ends: by a panic, by
  \<^verbatim>\<open>os.Exit\<close> with a code, or by returning from \<^verbatim>\<open>main\<close>.\<close>

datatype event =
    Called_CheckLocal
  | Called_Download string
  | Called_Exec
  | Printed string
  | Logged_Fatal string error

datatype ending = Panicked error | Exited int | Returned

text \<open>\<^verbatim>\<open>log.Fatalf\<close> writes the line and calls \<^verbatim>\<open>os.Exit(1)\<close>. Every path through the
  body of \<^verbatim>\<open>if reExec\<close> ends the process, so the test of the arguments is reached only
  when \<^verbatim>\<open>reExec\<close> is false. \<^verbatim>\<open>fmt.Println\<close> puts a space between its operands.\<close>

definition main :: "main_env \<Rightarrow> event list \<times> ending" where
  "main env =
     (case CheckLocal env of
        (toolsVersion, reExec) \<Rightarrow>
          if reExec then
            (case Download env toolsVersion of
               Some err \<Rightarrow>
                 ([Called_CheckLocal, Called_Download toolsVersion], Panicked (Traced err))
             | None \<Rightarrow>
                 (case Exec env of
                    (code, Some err) \<Rightarrow>
                      ([Called_CheckLocal, Called_Download toolsVersion, Called_Exec,
                        Logged_Fatal ''Failed to re-exec client tool: '' err], Exited 1)
                  | (code, None) \<Rightarrow>
                      ([Called_CheckLocal, Called_Download toolsVersion, Called_Exec],
                       Exited code)))
          else if length (Args env) > 1 \<and> Args env ! 1 = ''version''
            then ([Called_CheckLocal, Printed (''Teleport v '' @ Version env)], Returned)
            else ([Called_CheckLocal], Returned))"

subsection \<open>The directory lock on POSIX: \<^verbatim>\<open>lock\<close> with \<^verbatim>\<open>flock\<close>\<close>

text \<open>The state of a POSIX system as the lock sees it: the regular files, the open
  descriptors with the file each is open on, and for each file the descriptor whose open
  file description holds the exclusive \<^verbatim>\<open>flock\<close> on it. Every \<^verbatim>\<open>open\<close> makes a new
  open file description; descriptor numbers are not reused.\<close>

record posix =
  p_files :: "path \<rightharpoonup> file_data"
  p_fds :: "(nat \<times> path) list"
  p_flocks :: "path \<rightharpoonup> nat"
  p_next_fd :: nat

text \<open>A call that may wait: \<open>Blocks\<close> is the call that does not return in this state.\<close>

datatype 'a call = Blocks | Returns 'a

datatype oflag = O_RDONLY | O_WRONLY | O_RDWR | O_APPEND | O_CREATE | O_EXCL | O_TRUNC

text \<open>The error numbers of Linux, and the operations of flock(2).\<close>

definition EBADF :: nat where "EBADF = 9"
definition EWOULDBLOCK :: nat where "EWOULDBLOCK = 11"
definition EINVAL :: nat where "EINVAL = 22"

definition LOCK_SH :: int where "LOCK_SH = 1"
definition LOCK_EX :: int where "LOCK_EX = 2"
definition LOCK_NB :: int where "LOCK_NB = 4"
definition LOCK_UN :: int where "LOCK_UN = 8"

text \<open>\<^verbatim>\<open>os.OpenFile(name, flag, perm)\<close>: the file is made when it is missing and
  \<^verbatim>\<open>O_CREATE\<close> is given; the result is a new descriptor.\<close>

definition os_OpenFile :: "error option \<Rightarrow> path \<Rightarrow> oflag set \<Rightarrow> nat \<Rightarrow> posix \<Rightarrow> error + (nat \<times> posix)" where
  "os_OpenFile fault name flag perm s =
     (case fault of
        Some err \<Rightarrow> Inl err
      | None \<Rightarrow>
          (let fd = p_next_fd s;
               s1 = s\<lparr>p_fds := (fd, name) # p_fds s, p_next_fd := Suc fd\<rparr>
           in case p_files s name of
                None \<Rightarrow>
                  if O_CREATE \<in> flag
                  then Inr (fd, s1\<lparr>p_files := (p_files s)(name \<mapsto> \<lparr>content = [], mode = perm\<rparr>)\<rparr>)
                  else Inl (Errno ENOENT)
              | Some f \<Rightarrow>
                  if O_CREATE \<in> flag \<and> O_EXCL \<in> flag then Inl (Errno EEXIST)
                  else if O_TRUNC \<in> flag
                  then Inr (fd, s1\<lparr>p_files := (p_files s)(name \<mapsto> f\<lparr>content := []\<rparr>)\<rparr>)
                  else Inr (fd, s1)))"

definition drop_flock :: "nat \<Rightarrow> path \<Rightarrow> posix \<Rightarrow> posix" where
  "drop_flock fd name s =
     (if p_flocks s name = Some fd then s\<lparr>p_flocks := (p_flocks s)(name := None)\<rparr> else s)"

text \<open>\<^verbatim>\<open>syscall.Flock(fd, how)\<close>, as flock(2) has it for the exclusive lock (shared locks
  are not used by the program and not modelled: \<^verbatim>\<open>LOCK_SH\<close> is answered as an invalid
  operation). The operation is \<^verbatim>\<open>how\<close> without the bit \<^verbatim>\<open>LOCK_NB\<close>. When another
  descriptor holds the lock, the call fails with \<^verbatim>\<open>EWOULDBLOCK\<close> if \<^verbatim>\<open>LOCK_NB\<close> is
  set and waits otherwise. A fault is an error the kernel reports on its own
  (\<^verbatim>\<open>EINTR\<close>, \<^verbatim>\<open>ENOLCK\<close>).\<close>

definition syscall_Flock :: "error option \<Rightarrow> nat \<Rightarrow> int \<Rightarrow> posix \<Rightarrow> (error option \<times> posix) call" where
  "syscall_Flock fault fd how s =
     (case map_of (p_fds s) fd of
        None \<Rightarrow> Returns (Some (Errno EBADF), s)
      | Some name \<Rightarrow>
          (case fault of
             Some err \<Rightarrow> Returns (Some err, s)
           | None \<Rightarrow>
               (let cmd = how AND NOT LOCK_NB in
                if cmd = LOCK_UN then Returns (None, drop_flock fd name s)
                else if cmd = LOCK_EX then
                  (case p_flocks s name of
                     None \<Rightarrow> Returns (None, s\<lparr>p_flocks := (p_flocks s)(name \<mapsto> fd)\<rparr>)
                   | Some holder \<Rightarrow>
                       if holder = fd then Returns (None, s)
                       else if how AND LOCK_NB \<noteq> 0 then Returns (Some (Errno EWOULDBLOCK), s)
                       else Blocks)
                else Returns (Some (Errno EINVAL), s))))"

text \<open>\<^verbatim>\<open>lf.Close()\<close>: the descriptor is gone, and with it the lock its open file
  description held; a fault is reported after the descriptor is released.\<close>

definition posix_Close :: "error option \<Rightarrow> nat \<Rightarrow> posix \<Rightarrow> error option \<times> posix" where
  "posix_Close fault fd s =
     (case map_of (p_fds s) fd of
        None \<Rightarrow> (Some (Errno EBADF), s)
      | Some name \<Rightarrow>
          (fault, (drop_flock fd name s)\<lparr>p_fds := filter (\<lambda>e. fst e \<noteq> fd) (p_fds s)\<rparr>))"

text \<open>The function value \<^verbatim>\<open>lock\<close> returns: a closure over the open lock file and its
  path. \<^verbatim>\<open>nil\<close> is \<open>None\<close>.\<close>

datatype release = Release nat path

type_synonym debug_log = "string \<times> path \<times> error"

record unix_env =
  openFile_fault :: "error option"
  flock_fault :: "error option"
  unlock_fault :: "error option"
  close_fault :: "error option"

text \<open>\<^verbatim>\<open>lock\<close> of the file built for every system but Windows. The separator is the
  slash. The permission 0666 is written in base ten.\<close>

definition lock_unix :: "unix_env \<Rightarrow> string \<Rightarrow> posix \<Rightarrow> ((release option \<times> error option) \<times> posix) call" where
  "lock_unix env dir s =
     (let lockFile = filepath_Join (CHR ''/'') dir ''.lock'' in
      case os_OpenFile (openFile_fault env) lockFile {O_CREATE, O_WRONLY, O_APPEND} (6 * 64 + 6 * 8 + 6) s of
        Inl err \<Rightarrow> Returns ((None, Some (Traced err)), s)
      | Inr (lf, s1) \<Rightarrow>
          (case syscall_Flock (flock_fault env) lf LOCK_EX s1 of
             Blocks \<Rightarrow> Blocks
           | Returns (Some err, s2) \<Rightarrow> Returns ((None, Some (Traced err)), s2)
           | Returns (None, s2) \<Rightarrow> Returns ((Some (Release lf lockFile), None), s2)))"

text \<open>The closure: unlock, then close; a failure of either is logged at debug level and
  nothing else. The removal of the lock file is commented out in the source.\<close>

definition release_unix :: "unix_env \<Rightarrow> release \<Rightarrow> posix \<Rightarrow> (debug_log list \<times> posix) call" where
  "release_unix env rel s =
     (case rel of
        Release lf lockFile \<Rightarrow>
          (case syscall_Flock (unlock_fault env) lf LOCK_UN s of
             Blocks \<Rightarrow> Blocks
           | Returns (e1, s1) \<Rightarrow>
               (case posix_Close (close_fault env) lf s1 of
                  (e2, s2) \<Rightarrow>
                    Returns
                      ((case e1 of None \<Rightarrow> [] | Some err \<Rightarrow> [(''failed to unlock file'', lockFile, err)]) @
                       (case e2 of None \<Rightarrow> [] | Some err \<Rightarrow> [(''failed to close lock file'', lockFile, err)]),
                       s2))))"

subsection \<open>The directory lock on Windows: \<^verbatim>\<open>lock\<close> with \<^verbatim>\<open>CreateFileW\<close>\<close>

definition GENERIC_READ :: "32 word" where "GENERIC_READ = 0x80000000"
definition GENERIC_WRITE :: "32 word" where "GENERIC_WRITE = 0x40000000"
definition FILE_SHARE_READ :: "32 word" where "FILE_SHARE_READ = 0x1"
definition FILE_SHARE_WRITE :: "32 word" where "FILE_SHARE_WRITE = 0x2"
definition OPEN_ALWAYS :: "32 word" where "OPEN_ALWAYS = 4"
definition FILE_ATTRIBUTE_NORMAL :: "32 word" where "FILE_ATTRIBUTE_NORMAL = 0x80"
definition HANDLE_FLAG_INHERIT :: "32 word" where "HANDLE_FLAG_INHERIT = 0x1"

definition NO_ERROR :: nat where "NO_ERROR = 0"
definition ERROR_INVALID_HANDLE :: nat where "ERROR_INVALID_HANDLE = 6"
definition ERROR_SHARING_VIOLATION :: nat where "ERROR_SHARING_VIOLATION = 32"
definition ERROR_INVALID_PARAMETER :: nat where "ERROR_INVALID_PARAMETER = 87"
definition ERROR_ALREADY_EXISTS :: nat where "ERROR_ALREADY_EXISTS = 183"

text \<open>\<^verbatim>\<open>INVALID_HANDLE_VALUE\<close> is the pointer of all ones.\<close>

definition INVALID_HANDLE_VALUE :: nat where
  "INVALID_HANDLE_VALUE = 2 ^ 64 - 1"

text \<open>The sharing rule of Windows for one handle that is already open on the file: the
  new open is refused when it asks for an access the handle does not share, or when it
  does not share an access the handle has.\<close>

definition share_conflict :: "32 word \<Rightarrow> 32 word \<Rightarrow> win_handle \<Rightarrow> bool" where
  "share_conflict access share h =
     ((access AND GENERIC_READ \<noteq> 0 \<and> h_share h AND FILE_SHARE_READ = 0) \<or>
      (access AND GENERIC_WRITE \<noteq> 0 \<and> h_share h AND FILE_SHARE_WRITE = 0) \<or>
      (h_access h AND GENERIC_READ \<noteq> 0 \<and> share AND FILE_SHARE_READ = 0) \<or>
      (h_access h AND GENERIC_WRITE \<noteq> 0 \<and> share AND FILE_SHARE_WRITE = 0))"

text \<open>\<^verbatim>\<open>proc.Call\<close> of \<^verbatim>\<open>CreateFileW\<close> with the file name, the desired access, the share
  mode, the creation disposition and the attributes (the security attributes and the
  template are null in the program and left out). The result is the handle and the last
  error. Only the disposition \<^verbatim>\<open>OPEN_ALWAYS\<close> is modelled: the file is opened, and
  made first when it is missing; the last error then tells which (\<^verbatim>\<open>NO_ERROR\<close> for a
  new file, \<^verbatim>\<open>ERROR_ALREADY_EXISTS\<close> for an old one). A fault is a last error the
  system reports for a reason outside the model, with no handle.\<close>

definition CreateFileW :: "nat option \<Rightarrow> path \<Rightarrow> 32 word \<Rightarrow> 32 word \<Rightarrow> 32 word \<Rightarrow> 32 word \<Rightarrow> winos \<Rightarrow> nat \<times> nat \<times> winos" where
  "CreateFileW fault name access share disposition attrs s =
     (case fault of
        Some errno \<Rightarrow> (INVALID_HANDLE_VALUE, errno, s)
      | None \<Rightarrow>
          if disposition \<noteq> OPEN_ALWAYS then (INVALID_HANDLE_VALUE, ERROR_INVALID_PARAMETER, s)
          else if list_ex (\<lambda>e. h_path (snd e) = name \<and> share_conflict access share (snd e)) (handles s)
          then (INVALID_HANDLE_VALUE, ERROR_SHARING_VIOLATION, s)
          else
            (let fd = next_handle s;
                 h = \<lparr>h_path = name, h_access = access, h_share = share, h_inherit = False\<rparr>;
                 s1 = s\<lparr>handles := (fd, h) # handles s, next_handle := Suc fd\<rparr>
             in case files s name of
                  Some f \<Rightarrow> (fd, ERROR_ALREADY_EXISTS, s1)
                | None \<Rightarrow> (fd, NO_ERROR, s1\<lparr>files := (files s)(name \<mapsto> \<lparr>content = [], mode = 6 * 64 + 6 * 8 + 6\<rparr>)\<rparr>)))"

text \<open>\<^verbatim>\<open>windows.CloseHandle\<close> and \<^verbatim>\<open>(*os.File).Close\<close>: the handle leaves the table.\<close>

definition CloseHandle :: "nat \<Rightarrow> winos \<Rightarrow> winos" where
  "CloseHandle fd s = s\<lparr>handles := filter (\<lambda>e. fst e \<noteq> fd) (handles s)\<rparr>"

text \<open>\<^verbatim>\<open>os.NewFile(fd, name)\<close> is \<^verbatim>\<open>nil\<close> for the invalid handle, and \<^verbatim>\<open>Fd()\<close> of a
  \<^verbatim>\<open>nil\<close> file is the invalid handle.\<close>

definition os_NewFile :: "nat \<Rightarrow> nat option" where
  "os_NewFile fd = (if fd = INVALID_HANDLE_VALUE then None else Some fd)"

definition file_Fd :: "nat option \<Rightarrow> nat" where
  "file_Fd f = (case f of None \<Rightarrow> INVALID_HANDLE_VALUE | Some fd \<Rightarrow> fd)"

text \<open>\<^verbatim>\<open>windows.SetHandleInformation(handle, mask, flags)\<close>: the flags under the mask are
  set on an open handle; here only the inheritance flag is kept.\<close>

definition SetHandleInformation :: "error option \<Rightarrow> nat \<Rightarrow> 32 word \<Rightarrow> 32 word \<Rightarrow> winos \<Rightarrow> error option \<times> winos" where
  "SetHandleInformation fault fd msk flags s =
     (if fd = INVALID_HANDLE_VALUE then (Some (Errno ERROR_INVALID_HANDLE), s)
      else case map_of (handles s) fd of
        None \<Rightarrow> (Some (Errno ERROR_INVALID_HANDLE), s)
      | Some h \<Rightarrow>
          (case fault of
             Some err \<Rightarrow> (Some err, s)
           | None \<Rightarrow>
               (None,
                s\<lparr>handles :=
                    map (\<lambda>e. if fst e = fd \<and> msk AND HANDLE_FLAG_INHERIT \<noteq> 0
                              then (fst e, (snd e)\<lparr>h_inherit := (flags AND HANDLE_FLAG_INHERIT \<noteq> 0)\<rparr>)
                              else e)
                      (handles s)\<rparr>)))"

text \<open>\<^verbatim>\<open>windows.UTF16PtrFromString\<close> refuses a string with a NUL byte.\<close>

definition UTF16PtrFromString :: "string \<Rightarrow> error + string" where
  "UTF16PtrFromString p = (if CHR 0x00 \<in> set p then Inl (Errno EINVAL) else Inr p)"

record win_env =
  createFile_fault :: "nat option"
  setHandle_fault :: "error option"
  closeFile_fault :: "error option"

text \<open>\<^verbatim>\<open>lock\<close> of the file built for Windows. The \<^verbatim>\<open>switch\<close> on the last error has
  three arms: success (a new or an old file), the sharing violation, and every other
  error, whose arm closes the handle it was given.\<close>

definition lock_windows :: "win_env \<Rightarrow> string \<Rightarrow> winos \<Rightarrow> (release option \<times> error option) \<times> winos" where
  "lock_windows env dir s =
     (let p = filepath_Join PathSeparator dir ''.lock'' in
      case UTF16PtrFromString p of
        Inl err \<Rightarrow> ((None, Some (Traced err)), s)
      | Inr lockPath \<Rightarrow>
          (case CreateFileW (createFile_fault env) lockPath
                  (GENERIC_READ OR GENERIC_WRITE) (FILE_SHARE_READ OR FILE_SHARE_WRITE)
                  OPEN_ALWAYS FILE_ATTRIBUTE_NORMAL s of
             (fd, errno, s1) \<Rightarrow>
               if errno = NO_ERROR \<or> errno = ERROR_ALREADY_EXISTS then
                 (let lockFile = os_NewFile fd in
                  case SetHandleInformation (setHandle_fault env) (file_Fd lockFile)
                          HANDLE_FLAG_INHERIT 1 s1 of
                    (Some err, s2) \<Rightarrow> ((None, Some (Traced err)), s2)
                  | (None, s2) \<Rightarrow> ((Some (Release (file_Fd lockFile) p), None), s2))
               else if errno = ERROR_SHARING_VIOLATION then ((None, Some ErrLocked), s1)
               else ((None, Some (Traced (Errno errno))), CloseHandle fd s1)))"

text \<open>The closure: the file is closed, and a failure is logged at debug level. The
  removal of the lock file is commented out in the source.\<close>

definition release_windows :: "win_env \<Rightarrow> release \<Rightarrow> winos \<Rightarrow> debug_log list \<times> winos" where
  "release_windows env rel s =
     (case rel of
        Release lockFile p \<Rightarrow>
          (case map_of (handles s) lockFile of
             None \<Rightarrow> ([(''failed to close lock file'', p, Errno ERROR_INVALID_HANDLE)], s)
           | Some h \<Rightarrow>
               ((case closeFile_fault env of
                   None \<Rightarrow> []
                 | Some err \<Rightarrow> [(''failed to close lock file'', p, err)]),
                CloseHandle lockFile s)))"

subsection \<open>Notions used by the statements\<close>

text \<open>The entries of an archive whose base name is the name of a tool binary.\<close>

definition tool_entries :: "zip_file list \<Rightarrow> zip_file list" where
  "tool_entries zs = filter (\<lambda>r. Base (Name r) = ''tsh.exe'' \<or> Base (Name r) = ''tctl.exe'') zs"

text \<open>From \<open>s\<close> to \<open>s'\<close> no file that existed has changed, the directories are the
  same, and every new file lies below \<open>d\<close>.\<close>

definition grows_in :: "path \<Rightarrow> winos \<Rightarrow> winos \<Rightarrow> bool" where
  "grows_in d s s' =
     (files s \<subseteq>\<^sub>m files s' \<and> dirs s' = dirs s \<and>
      (\<forall>p. files s p = None \<and> files s' p \<noteq> None \<longrightarrow> prefix d p))"

subsection \<open>Concrete runs\<close>

text \<open>A tools directory \<^verbatim>\<open>C:\tools\<close> with an installed \<^verbatim>\<open>tsh.exe\<close>, and a downloaded
  archive \<^verbatim>\<open>a.zip\<close> with a \<^verbatim>\<open>README.md\<close> and a new \<^verbatim>\<open>tsh.exe\<close>; no call fails on
  its own. A second archive has a \<^verbatim>\<open>tsh.exe\<close> that cannot be opened.\<close>

definition demo_tools :: path where
  "demo_tools = ''C:'' @ [PathSeparator] @ ''tools''"

definition demo_archive :: "zip_file list" where
  "demo_archive =
     [\<lparr>Name = ''README.md'', open_err = None, body = ''doc'', read_err = None\<rparr>,
      \<lparr>Name = ''tsh.exe'', open_err = None, body = ''new'', read_err = None\<rparr>]"

definition demo_unreadable :: "zip_file list" where
  "demo_unreadable =
     [\<lparr>Name = ''tsh.exe'', open_err = Some (Failure ''zip: unsupported compression algorithm''),
       body = [], read_err = None\<rparr>]"

definition demo_env :: replace_env where
  "demo_env =
     \<lparr>open_fault = None, stat_fault = None,
      zip_NewReader = (\<lambda>b. if b = ''PK'' then Inr demo_archive else Inl (Failure ''zip: not a valid zip file'')),
      toolsDir = Inr demo_tools, TempDir = ''T'',
      mkdirTemp_fault = None, mkdirTemp_random = ''1'',
      createTemp_fault = (\<lambda>k. None), createTemp_random = (\<lambda>k. ''2''),
      chmod_fault = (\<lambda>k. None), write_fault = (\<lambda>k. None)\<rparr>"

definition demo_os :: winos where
  "demo_os =
     \<lparr>files = [''a.zip'' \<mapsto> \<lparr>content = ''PK'', mode = 420\<rparr>,
               ''tsh.exe'' \<mapsto> \<lparr>content = ''old'', mode = 493\<rparr>,
               demo_tools @ [PathSeparator] @ ''tsh.exe'' \<mapsto> \<lparr>content = ''old'', mode = 493\<rparr>],
      dirs = {demo_tools, ''T''}, handles = [], next_handle = 1\<rparr>"

text \<open>A run of \<^verbatim>\<open>main\<close> with the argument \<^verbatim>\<open>version\<close> in which the version
  \<^verbatim>\<open>17.1.2\<close> is required: once with a download that fails, once with a download
  that succeeds and a child that exits with 0.\<close>

definition demo_failed_download :: main_env where
  "demo_failed_download =
     \<lparr>CheckLocal = (''17.1.2'', True), Download = (\<lambda>v. Some (Failure ''download failed'')),
      Exec = (0, None), Args = [''tsh'', ''version''], Version = ''16.1.1''\<rparr>"

definition demo_version_pinned :: main_env where
  "demo_version_pinned =
     \<lparr>CheckLocal = (''17.1.2'', True), Download = (\<lambda>v. None),
      Exec = (0, None), Args = [''tsh'', ''version''], Version = ''16.1.1''\<rparr>"

text \<open>A POSIX system with no lock file yet, and the state after one \<^verbatim>\<open>lock\<close> of the
  directory \<^verbatim>\<open>/home/u/.tsh/bin\<close>: descriptor 3 is open on the lock file and holds the
  lock. A Windows system with the tools directory and no open handle. No call fails on
  its own.\<close>

definition demo_home :: path where
  "demo_home = ''/home/u/.tsh/bin''"

definition demo_unix_env :: unix_env where
  "demo_unix_env = \<lparr>openFile_fault = None, flock_fault = None, unlock_fault = None, close_fault = None\<rparr>"

definition demo_posix :: posix where
  "demo_posix = \<lparr>p_files = Map.empty, p_fds = [], p_flocks = Map.empty, p_next_fd = 3\<rparr>"

definition demo_posix_locked :: posix where
  "demo_posix_locked =
     \<lparr>p_files = [''/home/u/.tsh/bin/.lock'' \<mapsto> \<lparr>content = [], mode = 438\<rparr>],
      p_fds = [(3, ''/home/u/.tsh/bin/.lock'')],
      p_flocks = [''/home/u/.tsh/bin/.lock'' \<mapsto> 3],
      p_next_fd = 4\<rparr>"

definition demo_win_env :: win_env where
  "demo_win_env = \<lparr>createFile_fault = None, setHandle_fault = None, closeFile_fault = None\<rparr>"

definition demo_win :: winos where
  "demo_win = \<lparr>files = Map.empty, dirs = {demo_tools}, handles = [], next_handle = 1\<rparr>"

section \<open>Properties\<close>

subsection \<open>Evaluation and frame lemmas of the installer\<close>

lemmas demo_defs = demo_env_def demo_os_def demo_archive_def demo_tools_def
lemmas replace_defs = replace_def replace_stage_def replace_entry_def os_Open_def os_MkdirTemp_def
  os_CreateTemp_def os_Chmod_def io_Copy_def append_file_def prefixAndSuffix_def joinPath_def
  IsPathSeparator_def PathSeparator_def exists_path_def filepath_Join_def Let_def

lemma joinPath_prefix: "prefix d (joinPath d n @ x)"
  by (simp add: joinPath_def prefix_def)

lemma os_CreateTemp_Inr:
  assumes "os_CreateTemp env k d pat s = Inr (t, s1)" and "d \<noteq> []"
  shows "files s t = None \<and> t \<notin> dirs s \<and> prefix d t \<and>
         s1 = s\<lparr>files := (files s)(t \<mapsto> \<lparr>content = [], mode = 6 * 64\<rparr>)\<rparr>"
  using assms
  by (auto simp: os_CreateTemp_def Let_def exists_path_def joinPath_prefix
           split: sum.splits option.splits if_splits)

lemma os_Chmod_Inr:
  assumes "os_Chmod env k t m s = Inr s1"
  shows "\<exists>f. files s t = Some f \<and> s1 = s\<lparr>files := (files s)(t \<mapsto> f\<lparr>mode := m\<rparr>)\<rparr>"
  using assms by (auto simp: os_Chmod_def split: option.splits)

lemma append_file_other: "p \<noteq> t \<Longrightarrow> files (append_file t b s) p = files s p"
  by (simp add: append_file_def split: option.splits)

lemma append_file_dirs: "dirs (append_file t b s) = dirs s"
  by (simp add: append_file_def split: option.splits)

lemma append_file_dom: "(files (append_file t b s) p = None) = (files s p = None)"
  by (simp add: append_file_def split: option.splits)

lemma io_Copy_frame:
  assumes "io_Copy env k t r s = (e, s1)"
  shows "dirs s1 = dirs s \<and> (\<forall>p. p \<noteq> t \<longrightarrow> files s1 p = files s p) \<and> (\<forall>p. (files s1 p = None) = (files s p = None))"
  using assms
  by (auto simp: io_Copy_def append_file_other append_file_dirs append_file_dom split: option.splits)

lemma grows_in_refl: "grows_in d s s"
  by (auto simp: grows_in_def)

lemma grows_in_trans: "grows_in d s s1 \<Longrightarrow> grows_in d s1 s2 \<Longrightarrow> grows_in d s s2"
  unfolding grows_in_def
  by (metis map_le_trans)

lemma grows_in_create:
  assumes "files s t = None" "prefix d t" "\<forall>p. p \<noteq> t \<longrightarrow> files s' p = files s p" "dirs s' = dirs s"
  shows "grows_in d s s'"
proof -
  have keep: "files s' a = files s a" if "files s a \<noteq> None" for a
    using that assms(1,3) by (cases "a = t") auto
  have new: "prefix d a" if "files s a = None" "files s' a \<noteq> None" for a
    using that assms(2,3) by (cases "a = t") auto
  show ?thesis
    unfolding grows_in_def map_le_def using keep new assms(4) by (simp add: domIff)
qed

lemma replace_entry_frame:
  assumes "replace_entry env dir tempDir k r s = (res, s')" and "tempDir \<noteq> []"
  shows "grows_in tempDir s s'"
proof (cases "open_err r")
  case (Some e)
  with assms have "s' = s" by (simp add: replace_entry_def)
  then show ?thesis by (simp add: grows_in_refl)
next
  case None
  show ?thesis
  proof (cases "os_CreateTemp env k tempDir (filepath_Join PathSeparator dir (Name r)) s")
    case (Inl e)
    with None assms have "s' = s" by (simp add: replace_entry_def)
    then show ?thesis by (simp add: grows_in_refl)
  next
    case (Inr ts)
    obtain t s1 where ts: "ts = (t, s1)" by (cases ts)
    from os_CreateTemp_Inr[OF Inr[unfolded ts] assms(2)]
    have c: "files s t = None" "prefix tempDir t"
      "s1 = s\<lparr>files := (files s)(t \<mapsto> \<lparr>content = [], mode = 6 * 64\<rparr>)\<rparr>" by auto
    show ?thesis
    proof (cases "os_Chmod env k t (7 * 64 + 5 * 8 + 5) s1")
      case (Inl e)
      with None Inr ts assms have "s' = s1" by (simp add: replace_entry_def)
      with c show ?thesis by (intro grows_in_create[of s t]) auto
    next
      case Inr2: (Inr s2)
      from os_Chmod_Inr[OF Inr2] obtain f where
        ch: "s2 = s1\<lparr>files := (files s1)(t \<mapsto> f\<lparr>mode := 7 * 64 + 5 * 8 + 5\<rparr>)\<rparr>" by auto
      obtain e s3 where cp: "io_Copy env k t r s2 = (e, s3)" by (cases "io_Copy env k t r s2")
      from None Inr ts Inr2 cp assms have "s' = s3"
        by (cases e) (simp_all add: replace_entry_def)
      moreover from io_Copy_frame[OF cp] have "dirs s3 = dirs s2" "\<forall>p. p \<noteq> t \<longrightarrow> files s3 p = files s2 p"
        by auto
      ultimately show ?thesis using c ch by (intro grows_in_create[of s t]) auto
    qed
  qed
qed

lemma replace_loop_frame:
  assumes "replace_loop env dir tempDir k zs s = (res, s')" and "tempDir \<noteq> []"
  shows "grows_in tempDir s s'"
  using assms
proof (induction zs arbitrary: k s)
  case Nil
  then show ?case by (simp add: grows_in_refl)
next
  case (Cons r rs)
  show ?case
  proof (cases "Name r \<noteq> ''tsh.exe'' \<and> Name r \<noteq> ''tctl.exe''")
    case True
    with Cons.prems have "replace_loop env dir tempDir k rs s = (res, s')" by simp
    from Cons.IH[OF this Cons.prems(2)] show ?thesis .
  next
    case False
    obtain e s1 where b: "replace_entry env dir tempDir k r s = (e, s1)"
      by (cases "replace_entry env dir tempDir k r s")
    have step: "replace_loop env dir tempDir k (r # rs) s =
        (case e of Some err \<Rightarrow> (Some err, s1)
         | None \<Rightarrow> replace_loop env dir tempDir (Suc k) rs s1)"
      using False b by (subst replace_loop.simps) (simp only: if_False prod.case)
    from replace_entry_frame[OF b Cons.prems(2)] have g1: "grows_in tempDir s s1" .
    show ?thesis
    proof (cases e)
      case (Some err)
      with step Cons.prems have "s' = s1" by simp
      with g1 show ?thesis by simp
    next
      case None
      with step Cons.prems have "replace_loop env dir tempDir (Suc k) rs s1 = (res, s')" by simp
      from Cons.IH[OF this Cons.prems(2)] g1 show ?thesis by (blast intro: grows_in_trans)
    qed
  qed
qed

lemma replace_stage_Inr:
  assumes "replace_stage env p s = Inr (zs, dir, tempDir, s1)"
  shows "tempDir \<notin> dirs s \<and> tempDir \<noteq> [] \<and> s1 = s\<lparr>dirs := insert tempDir (dirs s)\<rparr>"
  using assms
  by (auto simp: replace_stage_def os_MkdirTemp_def Let_def exists_path_def joinPath_def
           split: sum.splits option.splits if_splits)

lemma os_CreateTemp_reader: "os_CreateTemp (env\<lparr>zip_NewReader := f\<rparr>) = os_CreateTemp env"
  by (intro ext) (simp add: os_CreateTemp_def Let_def cong: sum.case_cong option.case_cong prod.case_cong if_cong)

lemma os_Chmod_reader: "os_Chmod (env\<lparr>zip_NewReader := f\<rparr>) = os_Chmod env"
  by (intro ext) (simp add: os_Chmod_def cong: sum.case_cong option.case_cong prod.case_cong if_cong)

lemma io_Copy_reader: "io_Copy (env\<lparr>zip_NewReader := f\<rparr>) = io_Copy env"
  by (intro ext) (simp add: io_Copy_def cong: sum.case_cong option.case_cong prod.case_cong if_cong)

lemma replace_entry_reader [simp]:
  "replace_entry (env\<lparr>zip_NewReader := f\<rparr>) dir tempDir k r s = replace_entry env dir tempDir k r s"
  unfolding replace_entry_def os_CreateTemp_reader os_Chmod_reader io_Copy_reader
  by (rule refl)

lemma replace_loop_reader:
  "replace_loop (env\<lparr>zip_NewReader := f\<rparr>) dir tempDir k zs s = replace_loop env dir tempDir k zs s"
  by (induction zs arbitrary: k s) (simp_all split: prod.splits option.splits)

lemma Base_tools: "Base ''tsh.exe'' = ''tsh.exe''" "Base ''tctl.exe'' = ''tctl.exe''"
  by (simp_all add: Base_def stripTrailing_def IsPathSeparator_def)

lemma replace_loop_tool_entries:
  "replace_loop env dir tempDir k (tool_entries zs) s = replace_loop env dir tempDir k zs s"
proof (induction zs arbitrary: k s)
  case Nil
  show ?case by (simp add: tool_entries_def)
next
  case (Cons r rs)
  show ?case
  proof (cases "Name r \<noteq> ''tsh.exe'' \<and> Name r \<noteq> ''tctl.exe''")
    case True
    then have skip: "replace_loop env dir tempDir k (r # rs) s = replace_loop env dir tempDir k rs s" by simp
    show ?thesis
    proof (cases "Base (Name r) = ''tsh.exe'' \<or> Base (Name r) = ''tctl.exe''")
      case True
      then have "tool_entries (r # rs) = r # tool_entries rs" by (simp add: tool_entries_def)
      with \<open>Name r \<noteq> ''tsh.exe'' \<and> Name r \<noteq> ''tctl.exe''\<close> Cons.IH skip show ?thesis by simp
    next
      case False
      then have "tool_entries (r # rs) = tool_entries rs" by (simp add: tool_entries_def)
      with Cons.IH skip show ?thesis by simp
    qed
  next
    case False
    then have "Base (Name r) = ''tsh.exe'' \<or> Base (Name r) = ''tctl.exe''"
      using Base_tools by auto
    then have "tool_entries (r # rs) = r # tool_entries rs" by (simp add: tool_entries_def)
    with Cons.IH show ?thesis by (simp split: prod.splits option.splits)
  qed
qed

subsection \<open>Lemmas of the POSIX lock\<close>

lemma flock_cmds: "LOCK_EX AND NOT LOCK_NB = LOCK_EX" "LOCK_UN AND NOT LOCK_NB = LOCK_UN"
  "LOCK_EX \<noteq> LOCK_UN" "LOCK_EX AND LOCK_NB = 0"
  by (simp_all add: LOCK_EX_def LOCK_NB_def LOCK_UN_def)

lemma os_OpenFile_create:
  assumes "os_OpenFile fault name flag perm s = Inr (fd, s1)" and "O_CREATE \<in> flag"
  shows "fd = p_next_fd s \<and> p_files s1 name \<noteq> None \<and> p_fds s1 = (fd, name) # p_fds s \<and>
         p_flocks s1 = p_flocks s"
  using assms
  by (auto simp: os_OpenFile_def Let_def split: option.splits if_splits)

lemma syscall_Flock_EX:
  assumes "map_of (p_fds s) fd = Some name"
  shows "syscall_Flock fault fd LOCK_EX s =
     (case fault of
        Some err \<Rightarrow> Returns (Some err, s)
      | None \<Rightarrow>
          (case p_flocks s name of
             None \<Rightarrow> Returns (None, s\<lparr>p_flocks := (p_flocks s)(name \<mapsto> fd)\<rparr>)
           | Some holder \<Rightarrow> if holder = fd then Returns (None, s) else Blocks))"
  using assms
  by (simp add: syscall_Flock_def Let_def flock_cmds split: option.splits)

lemma syscall_Flock_UN:
  assumes "map_of (p_fds s) fd = Some name"
  shows "syscall_Flock fault fd LOCK_UN s =
     (case fault of
        Some err \<Rightarrow> Returns (Some err, s)
      | None \<Rightarrow> Returns (None, drop_flock fd name s))"
  using assms
  by (simp add: syscall_Flock_def Let_def flock_cmds split: option.splits)

lemma lock_unix_cases:
  "lock_unix env dir s =
     (case os_OpenFile (openFile_fault env) (filepath_Join (CHR ''/'') dir ''.lock'')
             {O_CREATE, O_WRONLY, O_APPEND} (6 * 64 + 6 * 8 + 6) s of
        Inl err \<Rightarrow> Returns ((None, Some (Traced err)), s)
      | Inr (lf, s1) \<Rightarrow>
          (case flock_fault env of
             Some err \<Rightarrow> Returns ((None, Some (Traced err)), s1)
           | None \<Rightarrow>
               (case p_flocks s (filepath_Join (CHR ''/'') dir ''.lock'') of
                  None \<Rightarrow>
                    Returns ((Some (Release lf (filepath_Join (CHR ''/'') dir ''.lock'')), None),
                             s1\<lparr>p_flocks := (p_flocks s)(filepath_Join (CHR ''/'') dir ''.lock'' \<mapsto> lf)\<rparr>)
                | Some holder \<Rightarrow>
                    if holder = lf
                    then Returns ((Some (Release lf (filepath_Join (CHR ''/'') dir ''.lock'')), None), s1)
                    else Blocks)))"
proof (cases "os_OpenFile (openFile_fault env) (filepath_Join (CHR ''/'') dir ''.lock'')
             {O_CREATE, O_WRONLY, O_APPEND} (6 * 64 + 6 * 8 + 6) s")
  case (Inl e)
  then show ?thesis by (simp add: lock_unix_def Let_def)
next
  case (Inr x)
  obtain lf s1 where x: "x = (lf, s1)" by (cases x)
  from os_OpenFile_create[OF Inr[unfolded x]]
  have o: "p_fds s1 = (lf, filepath_Join (CHR ''/'') dir ''.lock'') # p_fds s" "p_flocks s1 = p_flocks s"
    by auto
  then have m: "map_of (p_fds s1) lf = Some (filepath_Join (CHR ''/'') dir ''.lock'')" by simp
  show ?thesis
    using Inr x o(2)
    by (simp add: lock_unix_def Let_def syscall_Flock_EX[OF m] split: option.splits)
qed

lemma lock_unix_acquired:
  assumes "lock_unix env dir s = Returns ((Some r, e), s1)"
  shows "e = None \<and> r = Release (p_next_fd s) (filepath_Join (CHR ''/'') dir ''.lock'') \<and>
         p_files s1 (filepath_Join (CHR ''/'') dir ''.lock'') \<noteq> None \<and>
         map_of (p_fds s1) (p_next_fd s) = Some (filepath_Join (CHR ''/'') dir ''.lock'') \<and>
         p_flocks s1 (filepath_Join (CHR ''/'') dir ''.lock'') = Some (p_next_fd s)"
proof (cases "os_OpenFile (openFile_fault env) (filepath_Join (CHR ''/'') dir ''.lock'')
             {O_CREATE, O_WRONLY, O_APPEND} (6 * 64 + 6 * 8 + 6) s")
  case (Inl err)
  with assms show ?thesis by (simp add: lock_unix_cases)
next
  case (Inr x)
  obtain lf s0 where x: "x = (lf, s0)" by (cases x)
  from os_OpenFile_create[OF Inr[unfolded x]]
  have o: "lf = p_next_fd s" "p_files s0 (filepath_Join (CHR ''/'') dir ''.lock'') \<noteq> None"
    "p_fds s0 = (lf, filepath_Join (CHR ''/'') dir ''.lock'') # p_fds s" "p_flocks s0 = p_flocks s"
    by auto
  from assms Inr x o show ?thesis
    by (auto simp: lock_unix_cases split: option.splits if_splits)
qed

lemma map_of_filter_key: "map_of (filter (\<lambda>e. fst e \<noteq> k) xs) k = None"
  by (induction xs) auto

lemma release_unix_returns:
  assumes "map_of (p_fds s) fd = Some name"
  shows "\<exists>logs s2. release_unix env (Release fd name) s = Returns (logs, s2) \<and>
           p_files s2 = p_files s \<and> p_flocks s2 name \<noteq> Some fd \<and> map_of (p_fds s2) fd = None"
proof (cases "unlock_fault env")
  case None
  have "map_of (p_fds (drop_flock fd name s)) fd = Some name"
    using assms by (simp add: drop_flock_def)
  then show ?thesis
    using None assms
    by (simp add: release_unix_def syscall_Flock_UN[OF assms] posix_Close_def drop_flock_def
          map_of_filter_key)
next
  case (Some err)
  then show ?thesis
    using assms
    by (simp add: release_unix_def syscall_Flock_UN[OF assms] posix_Close_def drop_flock_def
          map_of_filter_key)
qed

lemmas lock_unix_defs = lock_unix_def os_OpenFile_def syscall_Flock_def drop_flock_def posix_Close_def
  release_unix_def filepath_Join_def LOCK_EX_def LOCK_NB_def LOCK_UN_def Let_def

lemma demo_lock_unix:
  "lock_unix demo_unix_env demo_home demo_posix =
     Returns ((Some (Release 3 ''/home/u/.tsh/bin/.lock''), None), demo_posix_locked)"
  by (simp add: lock_unix_defs demo_unix_env_def demo_home_def demo_posix_def demo_posix_locked_def)

subsection \<open>Lemmas of the Windows lock\<close>

lemma file_Fd_NewFile: "file_Fd (os_NewFile fd) = fd"
  by (simp add: file_Fd_def os_NewFile_def)

lemma CreateFileW_opened:
  assumes "CreateFileW fault name a sh d at s = (fd, errno, s1)"
    and "fd \<noteq> INVALID_HANDLE_VALUE"
  shows "files s1 name \<noteq> None"
  using assms
  by (auto simp: CreateFileW_def Let_def split: option.splits if_splits)

lemma SetHandleInformation_files:
  "files (snd (SetHandleInformation fault fd m f s)) = files s"
  by (simp add: SetHandleInformation_def split: option.splits)

lemma SetHandleInformation_ok:
  assumes "SetHandleInformation fault fd m f s = (None, s1)"
  shows "fd \<noteq> INVALID_HANDLE_VALUE"
  using assms by (auto simp: SetHandleInformation_def split: option.splits if_splits)

lemma lock_windows_result:
  assumes "lock_windows env dir s = ((r, e), s1)"
  shows "(r \<noteq> None) = (e = None)"
  using assms
  by (auto simp: lock_windows_def Let_def split: sum.splits prod.splits option.splits if_splits)

lemma lock_windows_acquired:
  assumes "lock_windows env dir s = ((Some r, e), s1)"
  shows "files s1 (filepath_Join PathSeparator dir ''.lock'') \<noteq> None"
proof -
  let ?p = "filepath_Join PathSeparator dir ''.lock''"
  from assms obtain lockPath where u: "UTF16PtrFromString ?p = Inr lockPath"
    by (cases "UTF16PtrFromString ?p") (auto simp: lock_windows_def Let_def)
  then have lp: "lockPath = ?p" by (auto simp: UTF16PtrFromString_def split: if_splits)
  obtain fd errno s0 where c: "CreateFileW (createFile_fault env) ?p
       (GENERIC_READ OR GENERIC_WRITE) (FILE_SHARE_READ OR FILE_SHARE_WRITE)
       OPEN_ALWAYS FILE_ATTRIBUTE_NORMAL s = (fd, errno, s0)"
    by (metis prod_cases3)
  obtain e2 s2 where h: "SetHandleInformation (setHandle_fault env) fd HANDLE_FLAG_INHERIT 1 s0 = (e2, s2)"
    by (cases "SetHandleInformation (setHandle_fault env) fd HANDLE_FLAG_INHERIT 1 s0")
  from assms u lp c h have ok: "e2 = None" "s1 = s2"
    by (auto simp: lock_windows_def Let_def file_Fd_NewFile split: if_splits option.splits)
  from SetHandleInformation_ok[OF h[unfolded ok(1)]] have "fd \<noteq> INVALID_HANDLE_VALUE" .
  from CreateFileW_opened[OF c this] have "files s0 ?p \<noteq> None" .
  moreover from h have "files s2 = files s0"
    using SetHandleInformation_files[of "setHandle_fault env" fd HANDLE_FLAG_INHERIT 1 s0] by simp
  ultimately show ?thesis using ok(2) by simp
qed

lemma lock_windows_closure:
  assumes "lock_windows env dir s = ((Some r, e), s1)"
  shows "\<exists>fd. r = Release fd (filepath_Join PathSeparator dir ''.lock'')"
  using assms
  by (auto simp: lock_windows_def Let_def split: sum.splits prod.splits option.splits if_splits)

lemma release_windows_closed:
  "map_of (handles (snd (release_windows env (Release fd p) s))) fd = None"
  by (simp add: release_windows_def CloseHandle_def map_of_filter_key split: option.splits)

lemma release_windows_files:
  "files (snd (release_windows env r s)) = files s \<and> dirs (snd (release_windows env r s)) = dirs s"
  by (cases r) (simp add: release_windows_def CloseHandle_def split: option.splits)

lemmas lock_windows_defs = lock_windows_def CreateFileW_def SetHandleInformation_def CloseHandle_def
  release_windows_def UTF16PtrFromString_def os_NewFile_def file_Fd_def share_conflict_def
  filepath_Join_def PathSeparator_def INVALID_HANDLE_VALUE_def
  GENERIC_READ_def GENERIC_WRITE_def FILE_SHARE_READ_def FILE_SHARE_WRITE_def OPEN_ALWAYS_def
  FILE_ATTRIBUTE_NORMAL_def HANDLE_FLAG_INHERIT_def NO_ERROR_def ERROR_ALREADY_EXISTS_def
  ERROR_SHARING_VIOLATION_def ERROR_INVALID_HANDLE_def ERROR_INVALID_PARAMETER_def Let_def

lemma demo_lock_windows:
  "lock_windows demo_win_env demo_tools demo_win =
     ((Some (Release 1 (demo_tools @ [PathSeparator] @ ''.lock'')), None),
      snd (lock_windows demo_win_env demo_tools demo_win))"
  by (simp add: lock_windows_defs demo_win_env_def demo_win_def demo_tools_def)

subsection \<open>The installer\<close>

text \<open>Claim C1, as the code has it. When \<^verbatim>\<open>replace\<close> returns an error, every file that
  existed before the call is unchanged. The staging directory is not removed: when the
  error comes before its creation the state is the one before the call, and when it comes
  after, the staging directory is still there on return, and every file the call has
  made lies below it.\<close>

theorem replace_error_leaves_staging:
  assumes "replace env p s = (Some err, s')"
  shows "files s \<subseteq>\<^sub>m files s' \<and>
         (case replace_stage env p s of
            Inl e \<Rightarrow> s' = s
          | Inr (zs, dir, tempDir, s1) \<Rightarrow>
              tempDir \<notin> dirs s \<and> dirs s' = insert tempDir (dirs s) \<and>
              (\<forall>q. files s q = None \<and> files s' q \<noteq> None \<longrightarrow> prefix tempDir q))"
proof (cases "replace_stage env p s")
  case (Inl e)
  with assms have "s' = s" by (simp add: replace_def)
  with Inl show ?thesis by simp
next
  case (Inr x)
  obtain zs dir tempDir s1 where x: "x = (zs, dir, tempDir, s1)" by (cases x) auto
  from replace_stage_Inr[OF Inr[unfolded x]]
  have st: "tempDir \<notin> dirs s" "tempDir \<noteq> []" "s1 = s\<lparr>dirs := insert tempDir (dirs s)\<rparr>" by auto
  from assms Inr x have "replace_loop env dir tempDir 0 zs s1 = (Some err, s')"
    by (simp add: replace_def)
  from replace_loop_frame[OF this st(2)] have g: "grows_in tempDir s1 s'" .
  from g st(3) have "files s \<subseteq>\<^sub>m files s'" "dirs s' = insert tempDir (dirs s)"
    "\<forall>q. files s q = None \<and> files s' q \<noteq> None \<longrightarrow> prefix tempDir q"
    by (auto simp: grows_in_def)
  with Inr x st(1) show ?thesis by simp
qed

text \<open>The theorem at the concrete run: the temporary file cannot be made, since its
  pattern is the destination path and has separators; the installed files are unchanged
  and the staging directory stays.\<close>

theorem replace_error_leaves_staging_witness:
  "files demo_os \<subseteq>\<^sub>m files (snd (replace demo_env ''a.zip'' demo_os)) \<and>
   dirs (snd (replace demo_env ''a.zip'' demo_os)) =
     insert (demo_tools @ [PathSeparator] @ ''temp-tools-dir1'') (dirs demo_os)"
proof -
  have r: "replace demo_env ''a.zip'' demo_os =
      (Some (Traced ErrPatternHasSeparator), snd (replace demo_env ''a.zip'' demo_os))"
    by (simp add: demo_defs replace_defs)
  have st: "replace_stage demo_env ''a.zip'' demo_os =
      Inr (demo_archive, demo_tools, demo_tools @ [PathSeparator] @ ''temp-tools-dir1'',
           demo_os\<lparr>dirs := insert (demo_tools @ [PathSeparator] @ ''temp-tools-dir1'') (dirs demo_os)\<rparr>)"
    by (simp add: demo_defs replace_defs)
  from replace_error_leaves_staging[OF r] st show ?thesis by simp
qed

text \<open>Claim C1 as stated fails: in the concrete run \<^verbatim>\<open>replace\<close> returns an error and
  the staging directory it made is in the tools directory on return. The same holds when
  the error is the one of an entry that cannot be opened.\<close>

theorem replace_staging_left_behind:
  "fst (replace demo_env ''a.zip'' demo_os) = Some (Traced ErrPatternHasSeparator) \<and>
   demo_tools @ [PathSeparator] @ ''temp-tools-dir1'' \<in> dirs (snd (replace demo_env ''a.zip'' demo_os)) \<and>
   demo_tools @ [PathSeparator] @ ''temp-tools-dir1'' \<notin> dirs demo_os \<and>
   fst (replace (demo_env\<lparr>zip_NewReader := \<lambda>b. Inr demo_unreadable\<rparr>) ''a.zip'' demo_os) =
     Some (Traced (Failure ''zip: unsupported compression algorithm'')) \<and>
   demo_tools @ [PathSeparator] @ ''temp-tools-dir1'' \<in>
     dirs (snd (replace (demo_env\<lparr>zip_NewReader := \<lambda>b. Inr demo_unreadable\<rparr>) ''a.zip'' demo_os))"
  by (simp add: demo_defs demo_unreadable_def replace_defs)

text \<open>Claim C4 at two concrete runs. With the tools directory \<^verbatim>\<open>C:\tools\<close> the call
  fails and \<^verbatim>\<open>C:\tools\tsh.exe\<close> keeps its old content. With an empty tools directory
  (the pattern then has no separator) the call returns \<^verbatim>\<open>nil\<close>, the new content is in
  the temporary file of the staging directory, and the file \<^verbatim>\<open>tsh.exe\<close> of the tools
  directory keeps its old content: nothing is promoted.\<close>

theorem replace_never_promotes:
  "fst (replace demo_env ''a.zip'' demo_os) = Some (Traced ErrPatternHasSeparator) \<and>
   map_option content
     (files (snd (replace demo_env ''a.zip'' demo_os)) (filepath_Join PathSeparator demo_tools ''tsh.exe''))
     = Some ''old'' \<and>
   fst (replace (demo_env\<lparr>toolsDir := Inr []\<rparr>) ''a.zip'' demo_os) = None \<and>
   map_option content
     (files (snd (replace (demo_env\<lparr>toolsDir := Inr []\<rparr>) ''a.zip'' demo_os))
        (filepath_Join PathSeparator [] ''tsh.exe''))
     = Some ''old'' \<and>
   map_option content
     (files (snd (replace (demo_env\<lparr>toolsDir := Inr []\<rparr>) ''a.zip'' demo_os))
        (''T'' @ [PathSeparator] @ ''temp-tools-dir1'' @ [PathSeparator] @ ''tsh.exe2''))
     = Some ''new''"
  by (simp add: demo_defs replace_defs)

text \<open>Claim C7. Only entries whose base name is \<^verbatim>\<open>tsh.exe\<close> or \<^verbatim>\<open>tctl.exe\<close> are
  extracted: taking every other entry out of the archive changes neither the result of
  \<^verbatim>\<open>replace\<close> nor the state it leaves.\<close>

theorem replace_ignores_other_entries:
  "replace (env\<lparr>zip_NewReader := \<lambda>b. map_sum (\<lambda>e. e) tool_entries (zip_NewReader env b)\<rparr>) p s
     = replace env p s"
proof -
  let ?env = "env\<lparr>zip_NewReader := \<lambda>b. map_sum (\<lambda>e. e) tool_entries (zip_NewReader env b)\<rparr>"
  show ?thesis
  proof (cases "replace_stage env p s")
    case (Inl e)
    then have "replace_stage ?env p s = Inl e"
      by (auto simp: replace_stage_def os_Open_def os_MkdirTemp_def split: sum.splits option.splits)
    with Inl show ?thesis by (simp add: replace_def)
  next
    case (Inr x)
    obtain zs dir tempDir s1 where x: "x = (zs, dir, tempDir, s1)" by (cases x) auto
    from Inr x have "replace_stage ?env p s = Inr (tool_entries zs, dir, tempDir, s1)"
      by (auto simp: replace_stage_def os_Open_def os_MkdirTemp_def split: sum.splits option.splits)
    with Inr x show ?thesis
      by (simp add: replace_def replace_loop_reader replace_loop_tool_entries)
  qed
qed

text \<open>The theorem at the concrete archive, whose \<^verbatim>\<open>README.md\<close> is the other entry,
  in the run that extracts \<^verbatim>\<open>tsh.exe\<close>.\<close>

theorem replace_ignores_other_entries_witness:
  "tool_entries demo_archive = [\<lparr>Name = ''tsh.exe'', open_err = None, body = ''new'', read_err = None\<rparr>] \<and>
   replace (demo_env\<lparr>toolsDir := Inr [],
                     zip_NewReader := \<lambda>b. map_sum (\<lambda>e. e) tool_entries (zip_NewReader demo_env b)\<rparr>)
     ''a.zip'' demo_os = replace (demo_env\<lparr>toolsDir := Inr []\<rparr>) ''a.zip'' demo_os \<and>
   fst (replace (demo_env\<lparr>toolsDir := Inr []\<rparr>) ''a.zip'' demo_os) = None"
proof -
  have "tool_entries demo_archive = [\<lparr>Name = ''tsh.exe'', open_err = None, body = ''new'', read_err = None\<rparr>]"
    by (simp add: tool_entries_def demo_archive_def Base_def stripTrailing_def IsPathSeparator_def)
  moreover have "fst (replace (demo_env\<lparr>toolsDir := Inr []\<rparr>) ''a.zip'' demo_os) = None"
    by (simp add: demo_defs replace_defs)
  ultimately show ?thesis
    using replace_ignores_other_entries[of "demo_env\<lparr>toolsDir := Inr []\<rparr>" "''a.zip''" demo_os]
    by simp
qed

subsection \<open>The entry point\<close>

text \<open>Claim C3, as the code has it. When a re-exec is required and the download fails,
  \<^verbatim>\<open>main\<close> panics with the wrapped error right after the download: \<^verbatim>\<open>Exec\<close> is not
  called and nothing is printed, whatever is installed locally.\<close>

theorem main_panics_when_download_fails:
  assumes "CheckLocal env = (v, True)" and "Download env v = Some err"
  shows "main env = ([Called_CheckLocal, Called_Download v], Panicked (Traced err))"
  using assms by (simp add: main_def)

text \<open>The theorem at the run with the failing download.\<close>

theorem main_panics_when_download_fails_witness:
  "main demo_failed_download =
     ([Called_CheckLocal, Called_Download ''17.1.2''], Panicked (Traced (Failure ''download failed'')))"
proof -
  have c: "CheckLocal demo_failed_download = (''17.1.2'', True)"
    by (simp add: demo_failed_download_def)
  have d: "Download demo_failed_download ''17.1.2'' = Some (Failure ''download failed'')"
    by (simp add: demo_failed_download_def)
  from main_panics_when_download_fails[OF c d] show ?thesis .
qed

text \<open>Claim C3 as stated fails: the download fails, the process ends in a panic, and the
  installed binary is never run.\<close>

theorem main_no_fallback:
  "Download demo_failed_download (fst (CheckLocal demo_failed_download)) \<noteq> None \<and>
   snd (main demo_failed_download) = Panicked (Traced (Failure ''download failed'')) \<and>
   Called_Exec \<notin> set (fst (main demo_failed_download))"
  by (simp add: main_def demo_failed_download_def)

text \<open>Claim C9, as the code has it. With \<^verbatim>\<open>version\<close> as first argument, the version
  is resolved first in every run. When no re-exec is required the process prints
  \<^verbatim>\<open>Teleport v\<close> and the build version and returns, with no download and no re-exec.
  When a re-exec is required the download is run, and the process ends inside the update
  flow without printing the version.\<close>

theorem main_version_after_update:
  assumes "1 < length (Args env)" and "Args env ! 1 = ''version''"
  shows "hd (fst (main env)) = Called_CheckLocal \<and>
         (if snd (CheckLocal env)
          then Called_Download (fst (CheckLocal env)) \<in> set (fst (main env)) \<and>
               (Download env (fst (CheckLocal env)) = None \<longrightarrow>
                  Called_Exec \<in> set (fst (main env))) \<and>
               (\<forall>line. Printed line \<notin> set (fst (main env))) \<and>
               snd (main env) \<noteq> Returned
          else main env = ([Called_CheckLocal, Printed (''Teleport v '' @ Version env)], Returned))"
  using assms
  by (cases "CheckLocal env") (auto simp: main_def split: option.splits prod.splits)

text \<open>The theorem at a run where no re-exec is required and at one where it is.\<close>

theorem main_version_after_update_witness:
  "main (demo_version_pinned\<lparr>CheckLocal := (''16.1.1'', False)\<rparr>) =
     ([Called_CheckLocal, Printed ''Teleport v 16.1.1''], Returned) \<and>
   Called_Download ''17.1.2'' \<in> set (fst (main demo_version_pinned)) \<and>
   Called_Exec \<in> set (fst (main demo_version_pinned)) \<and>
   Printed ''Teleport v 16.1.1'' \<notin> set (fst (main demo_version_pinned))"
proof -
  let ?e = "demo_version_pinned\<lparr>CheckLocal := (''16.1.1'', False)\<rparr>"
  have a: "1 < length (Args ?e)" "Args ?e ! 1 = ''version''"
    by (simp_all add: demo_version_pinned_def)
  have b: "1 < length (Args demo_version_pinned)" "Args demo_version_pinned ! 1 = ''version''"
    by (simp_all add: demo_version_pinned_def)
  from main_version_after_update[OF a] main_version_after_update[OF b]
  show ?thesis by (simp add: demo_version_pinned_def)
qed

text \<open>Claim C9 as stated fails: the first argument is \<^verbatim>\<open>version\<close>, and the process
  resolves the version, downloads, re-executes and exits with the code of the child; it
  prints nothing.\<close>

theorem main_version_runs_update:
  "Args demo_version_pinned ! 1 = ''version'' \<and>
   main demo_version_pinned =
     ([Called_CheckLocal, Called_Download ''17.1.2'', Called_Exec], Exited 0)"
  by (simp add: main_def demo_version_pinned_def)

text \<open>Claim C8. After a successful download, when \<^verbatim>\<open>Exec\<close> returns the code of the
  child and no error, the process exits with exactly this code and logs nothing; when
  \<^verbatim>\<open>Exec\<close> returns an error, the process logs the fatal line with the error and exits
  with status 1.\<close>

theorem main_exit_code_of_child:
  assumes "CheckLocal env = (v, True)" and "Download env v = None"
  shows "(Exec env = (code, None) \<longrightarrow>
            main env = ([Called_CheckLocal, Called_Download v, Called_Exec], Exited code)) \<and>
         (Exec env = (code, Some err) \<longrightarrow>
            main env = ([Called_CheckLocal, Called_Download v, Called_Exec,
                         Logged_Fatal ''Failed to re-exec client tool: '' err], Exited 1))"
  using assms by (simp add: main_def)

text \<open>The theorem at a child that exits with 3 and at a child that cannot be launched.\<close>

theorem main_exit_code_of_child_witness:
  "main (demo_version_pinned\<lparr>Exec := (3, None)\<rparr>) =
     ([Called_CheckLocal, Called_Download ''17.1.2'', Called_Exec], Exited 3) \<and>
   main (demo_version_pinned\<lparr>Exec := (0, Some (Failure ''exec: not found''))\<rparr>) =
     ([Called_CheckLocal, Called_Download ''17.1.2'', Called_Exec,
       Logged_Fatal ''Failed to re-exec client tool: '' (Failure ''exec: not found'')], Exited 1)"
proof -
  let ?a = "demo_version_pinned\<lparr>Exec := (3, None)\<rparr>"
  let ?b = "demo_version_pinned\<lparr>Exec := (0, Some (Failure ''exec: not found''))\<rparr>"
  have a: "CheckLocal ?a = (''17.1.2'', True)" "Download ?a ''17.1.2'' = None" "Exec ?a = (3, None)"
    by (simp_all add: demo_version_pinned_def)
  have b: "CheckLocal ?b = (''17.1.2'', True)" "Download ?b ''17.1.2'' = None"
    "Exec ?b = (0, Some (Failure ''exec: not found''))"
    by (simp_all add: demo_version_pinned_def)
  from main_exit_code_of_child[OF a(1,2), of 3 "Failure ''exec: not found''"] a(3)
       main_exit_code_of_child[OF b(1,2), of 0 "Failure ''exec: not found''"] b(3)
  show ?thesis by simp
qed

subsection \<open>The directory lock\<close>

text \<open>Claim C5. The POSIX \<^verbatim>\<open>lock\<close> never returns the error of a lock that is held:
  neither \<^verbatim>\<open>ErrLocked\<close> nor, unless a call fails with it on its own, the wrapped
  \<^verbatim>\<open>EWOULDBLOCK\<close>. It asks for \<^verbatim>\<open>LOCK_EX\<close> without \<^verbatim>\<open>LOCK_NB\<close>: when another
  descriptor holds the lock and no call fails, the call waits; when the lock is free and no
  call fails, it returns a release function and no error. When it returns a release
  function, the error is \<^verbatim>\<open>nil\<close>, the lock file exists, the new descriptor is open on
  it and holds the lock; and the release function returns, after which the lock is free
  and the descriptor is closed.\<close>

theorem lock_unix_blocking_flock:
  "lock_unix env dir s \<noteq> Returns ((rel, Some ErrLocked), s1) \<and>
   (openFile_fault env \<noteq> Some (Errno EWOULDBLOCK) \<and> flock_fault env \<noteq> Some (Errno EWOULDBLOCK) \<longrightarrow>
      lock_unix env dir s \<noteq> Returns ((rel, Some (Traced (Errno EWOULDBLOCK))), s1)) \<and>
   (openFile_fault env = None \<and> flock_fault env = None \<and>
    p_flocks s (filepath_Join (CHR ''/'') dir ''.lock'') = Some holder \<and> holder \<noteq> p_next_fd s \<longrightarrow>
      lock_unix env dir s = Blocks) \<and>
   (openFile_fault env = None \<and> flock_fault env = None \<and>
    p_flocks s (filepath_Join (CHR ''/'') dir ''.lock'') = None \<longrightarrow>
      (\<exists>s2. lock_unix env dir s =
         Returns ((Some (Release (p_next_fd s) (filepath_Join (CHR ''/'') dir ''.lock'')), None), s2))) \<and>
   (lock_unix env dir s = Returns ((Some r, e), s1) \<longrightarrow>
      e = None \<and> r = Release (p_next_fd s) (filepath_Join (CHR ''/'') dir ''.lock'') \<and>
      p_files s1 (filepath_Join (CHR ''/'') dir ''.lock'') \<noteq> None \<and>
      map_of (p_fds s1) (p_next_fd s) = Some (filepath_Join (CHR ''/'') dir ''.lock'') \<and>
      p_flocks s1 (filepath_Join (CHR ''/'') dir ''.lock'') = Some (p_next_fd s) \<and>
      (\<exists>logs s2. release_unix env' r s1 = Returns (logs, s2) \<and>
         p_flocks s2 (filepath_Join (CHR ''/'') dir ''.lock'') = None \<and>
         map_of (p_fds s2) (p_next_fd s) = None))"
proof (intro conjI impI)
  show "lock_unix env dir s \<noteq> Returns ((rel, Some ErrLocked), s1)"
    by (auto simp: lock_unix_cases split: sum.splits option.splits prod.splits if_splits)
next
  assume "openFile_fault env \<noteq> Some (Errno EWOULDBLOCK) \<and> flock_fault env \<noteq> Some (Errno EWOULDBLOCK)"
  then show "lock_unix env dir s \<noteq> Returns ((rel, Some (Traced (Errno EWOULDBLOCK))), s1)"
    by (auto simp: lock_unix_cases os_OpenFile_def Let_def ENOENT_def EEXIST_def EWOULDBLOCK_def
             split: sum.splits option.splits prod.splits if_splits)
next
  assume a: "openFile_fault env = None \<and> flock_fault env = None \<and>
    p_flocks s (filepath_Join (CHR ''/'') dir ''.lock'') = Some holder \<and> holder \<noteq> p_next_fd s"
  then show "lock_unix env dir s = Blocks"
    by (auto simp: lock_unix_cases os_OpenFile_def Let_def split: option.splits)
next
  assume "openFile_fault env = None \<and> flock_fault env = None \<and>
    p_flocks s (filepath_Join (CHR ''/'') dir ''.lock'') = None"
  then show "\<exists>s2. lock_unix env dir s =
         Returns ((Some (Release (p_next_fd s) (filepath_Join (CHR ''/'') dir ''.lock'')), None), s2)"
    by (auto simp: lock_unix_cases os_OpenFile_def Let_def split: option.splits)
next
  assume a: "lock_unix env dir s = Returns ((Some r, e), s1)"
  note acq = lock_unix_acquired[OF a]
  from acq show "e = None" by simp
  from acq show "r = Release (p_next_fd s) (filepath_Join (CHR ''/'') dir ''.lock'')" by simp
  from acq show "p_files s1 (filepath_Join (CHR ''/'') dir ''.lock'') \<noteq> None" by simp
  from acq show m: "map_of (p_fds s1) (p_next_fd s) = Some (filepath_Join (CHR ''/'') dir ''.lock'')" by simp
  from acq show l: "p_flocks s1 (filepath_Join (CHR ''/'') dir ''.lock'') = Some (p_next_fd s)" by simp
  from acq have r: "r = Release (p_next_fd s) (filepath_Join (CHR ''/'') dir ''.lock'')" by simp
  from release_unix_returns[OF m, of env'] obtain logs s2 where
    rel: "release_unix env' (Release (p_next_fd s) (filepath_Join (CHR ''/'') dir ''.lock'')) s1 = Returns (logs, s2)"
      "p_flocks s2 (filepath_Join (CHR ''/'') dir ''.lock'') \<noteq> Some (p_next_fd s)"
      "map_of (p_fds s2) (p_next_fd s) = None" by auto
  have "p_flocks s2 (filepath_Join (CHR ''/'') dir ''.lock'') = None"
  proof (cases "unlock_fault env'")
    case None
    with rel(1) m l show ?thesis
      by (auto simp: release_unix_def syscall_Flock_UN[OF m] posix_Close_def drop_flock_def
                split: option.splits if_splits)
  next
    case (Some x)
    with rel(1) m l show ?thesis
      by (auto simp: release_unix_def syscall_Flock_UN[OF m] posix_Close_def drop_flock_def
                split: option.splits if_splits)
  qed
  with rel r show "\<exists>logs s2. release_unix env' r s1 = Returns (logs, s2) \<and>
         p_flocks s2 (filepath_Join (CHR ''/'') dir ''.lock'') = None \<and>
         map_of (p_fds s2) (p_next_fd s) = None" by auto
qed

text \<open>The theorem at the concrete system: the first \<^verbatim>\<open>lock\<close> acquires, a second
  \<^verbatim>\<open>lock\<close> waits while the first holds, and the release frees the lock and closes
  descriptor 3.\<close>

theorem lock_unix_blocking_flock_witness:
  "lock_unix demo_unix_env demo_home demo_posix =
     Returns ((Some (Release 3 ''/home/u/.tsh/bin/.lock''), None), demo_posix_locked) \<and>
   lock_unix demo_unix_env demo_home demo_posix_locked = Blocks \<and>
   lock_unix demo_unix_env demo_home demo_posix_locked \<noteq>
     Returns ((None, Some (Traced (Errno EWOULDBLOCK))), demo_posix_locked) \<and>
   (\<exists>logs s2. release_unix demo_unix_env (Release 3 ''/home/u/.tsh/bin/.lock'') demo_posix_locked =
        Returns (logs, s2) \<and>
      p_flocks s2 ''/home/u/.tsh/bin/.lock'' = None \<and> map_of (p_fds s2) 3 = None)"
proof -
  have j: "filepath_Join (CHR ''/'') demo_home ''.lock'' = ''/home/u/.tsh/bin/.lock''"
    by (simp add: filepath_Join_def demo_home_def)
  have h: "openFile_fault demo_unix_env = None \<and> flock_fault demo_unix_env = None \<and>
      p_flocks demo_posix_locked (filepath_Join (CHR ''/'') demo_home ''.lock'') = Some 3 \<and>
      3 \<noteq> p_next_fd demo_posix_locked"
    by (simp add: j demo_unix_env_def demo_posix_locked_def)
  have n: "p_next_fd demo_posix = 3" by (simp add: demo_posix_def)
  from lock_unix_blocking_flock[of demo_unix_env demo_home demo_posix_locked None demo_posix_locked
         3 "Release 3 []" None demo_unix_env] h
  have b: "lock_unix demo_unix_env demo_home demo_posix_locked = Blocks" by blast
  have f: "openFile_fault demo_unix_env \<noteq> Some (Errno EWOULDBLOCK) \<and>
      flock_fault demo_unix_env \<noteq> Some (Errno EWOULDBLOCK)"
    by (simp add: demo_unix_env_def)
  from lock_unix_blocking_flock[of demo_unix_env demo_home demo_posix_locked None demo_posix_locked
         3 "Release 3 []" None demo_unix_env] f
  have c: "lock_unix demo_unix_env demo_home demo_posix_locked \<noteq>
     Returns ((None, Some (Traced (Errno EWOULDBLOCK))), demo_posix_locked)" by blast
  from lock_unix_blocking_flock[of demo_unix_env demo_home demo_posix None demo_posix_locked
         3 "Release 3 ''/home/u/.tsh/bin/.lock''" None demo_unix_env] demo_lock_unix
  have "\<exists>logs s2. release_unix demo_unix_env (Release 3 ''/home/u/.tsh/bin/.lock'') demo_posix_locked =
        Returns (logs, s2) \<and>
      p_flocks s2 ''/home/u/.tsh/bin/.lock'' = None \<and> map_of (p_fds s2) 3 = None"
    by (simp add: j n)
  with b c demo_lock_unix show ?thesis by simp
qed

text \<open>Claim C6. On both systems, after \<^verbatim>\<open>lock\<close> has returned a release function the
  lock file exists, and running the release function changes no file: the lock file is
  still there afterwards. On POSIX the release function returns; on Windows it leaves
  the handle of the lock file closed.\<close>

theorem release_keeps_lock_file:
  "(lock_unix env dir s = Returns ((Some rel, err), s1) \<longrightarrow>
      p_files s1 (filepath_Join (CHR ''/'') dir ''.lock'') \<noteq> None \<and>
      (\<exists>logs s2. release_unix env' rel s1 = Returns (logs, s2) \<and> p_files s2 = p_files s1)) \<and>
   (lock_windows wenv wdir ws = ((Some wrel, werr), ws1) \<longrightarrow>
      files ws1 (filepath_Join PathSeparator wdir ''.lock'') \<noteq> None \<and>
      files (snd (release_windows wenv' wrel ws1)) = files ws1 \<and>
      (\<exists>fd. wrel = Release fd (filepath_Join PathSeparator wdir ''.lock'') \<and>
         map_of (handles (snd (release_windows wenv' wrel ws1))) fd = None))"
proof (intro conjI impI)
  assume a: "lock_unix env dir s = Returns ((Some rel, err), s1)"
  from lock_unix_acquired[OF a]
  show "p_files s1 (filepath_Join (CHR ''/'') dir ''.lock'') \<noteq> None" by simp
  from lock_unix_acquired[OF a]
  have r: "rel = Release (p_next_fd s) (filepath_Join (CHR ''/'') dir ''.lock'')"
    and m: "map_of (p_fds s1) (p_next_fd s) = Some (filepath_Join (CHR ''/'') dir ''.lock'')"
    by auto
  from release_unix_returns[OF m, of env'] r
  show "\<exists>logs s2. release_unix env' rel s1 = Returns (logs, s2) \<and> p_files s2 = p_files s1"
    by auto
next
  assume a: "lock_windows wenv wdir ws = ((Some wrel, werr), ws1)"
  from lock_windows_acquired[OF a]
  show "files ws1 (filepath_Join PathSeparator wdir ''.lock'') \<noteq> None" .
  show "files (snd (release_windows wenv' wrel ws1)) = files ws1"
    by (simp add: release_windows_files)
  from lock_windows_closure[OF a] obtain fd where
    "wrel = Release fd (filepath_Join PathSeparator wdir ''.lock'')" by auto
  then show "\<exists>fd. wrel = Release fd (filepath_Join PathSeparator wdir ''.lock'') \<and>
         map_of (handles (snd (release_windows wenv' wrel ws1))) fd = None"
    by (simp add: release_windows_closed)
qed

text \<open>The theorem at the concrete systems.\<close>

theorem release_keeps_lock_file_witness:
  "p_files demo_posix_locked ''/home/u/.tsh/bin/.lock'' \<noteq> None \<and>
   (\<exists>logs s2. release_unix demo_unix_env (Release 3 ''/home/u/.tsh/bin/.lock'') demo_posix_locked =
        Returns (logs, s2) \<and> p_files s2 = p_files demo_posix_locked) \<and>
   files (snd (release_windows demo_win_env (Release 1 (demo_tools @ [PathSeparator] @ ''.lock''))
                 (snd (lock_windows demo_win_env demo_tools demo_win))))
     (demo_tools @ [PathSeparator] @ ''.lock'') \<noteq> None"
proof -
  have j: "filepath_Join (CHR ''/'') demo_home ''.lock'' = ''/home/u/.tsh/bin/.lock''"
    by (simp add: filepath_Join_def demo_home_def)
  have k: "filepath_Join PathSeparator demo_tools ''.lock'' = demo_tools @ [PathSeparator] @ ''.lock''"
    by (simp add: filepath_Join_def demo_tools_def)
  from release_keeps_lock_file[of demo_unix_env demo_home demo_posix
         "Release 3 ''/home/u/.tsh/bin/.lock''" None demo_posix_locked demo_unix_env
         demo_win_env demo_tools demo_win "Release 1 (demo_tools @ [PathSeparator] @ ''.lock'')" None
         "snd (lock_windows demo_win_env demo_tools demo_win)" demo_win_env]
       demo_lock_unix demo_lock_windows
  show ?thesis by (simp add: j k)
qed

text \<open>Claim C10. On both systems \<^verbatim>\<open>lock\<close> returns a release function that is not
  \<^verbatim>\<open>nil\<close> exactly when it returns the error \<^verbatim>\<open>nil\<close>.\<close>

theorem lock_release_iff_acquired:
  "(lock_unix env dir s = Returns ((rel, err), s1) \<longrightarrow> (rel \<noteq> None) = (err = None)) \<and>
   (lock_windows wenv wdir ws = ((wrel, werr), ws1) \<longrightarrow> (wrel \<noteq> None) = (werr = None))"
proof (intro conjI impI)
  assume "lock_unix env dir s = Returns ((rel, err), s1)"
  then show "(rel \<noteq> None) = (err = None)"
    by (auto simp: lock_unix_cases split: sum.splits option.splits prod.splits if_splits)
next
  assume "lock_windows wenv wdir ws = ((wrel, werr), ws1)"
  then show "(wrel \<noteq> None) = (werr = None)" by (rule lock_windows_result)
qed

text \<open>The theorem at a POSIX call that acquires the lock and at a Windows call whose
  \<^verbatim>\<open>CreateFileW\<close> reports a sharing violation.\<close>

theorem lock_release_iff_acquired_witness:
  "lock_unix demo_unix_env demo_home demo_posix =
     Returns ((Some (Release 3 ''/home/u/.tsh/bin/.lock''), None), demo_posix_locked) \<and>
   lock_windows (demo_win_env\<lparr>createFile_fault := Some ERROR_SHARING_VIOLATION\<rparr>) demo_tools demo_win =
     ((None, Some ErrLocked), demo_win) \<and>
   ((Some (Release 3 ''/home/u/.tsh/bin/.lock'') \<noteq> None) = ((None :: error option) = None)) \<and>
   (((None :: release option) \<noteq> None) = (Some ErrLocked = None))"
proof -
  have w: "lock_windows (demo_win_env\<lparr>createFile_fault := Some ERROR_SHARING_VIOLATION\<rparr>) demo_tools demo_win =
     ((None, Some ErrLocked), demo_win)"
    by (simp add: lock_windows_defs demo_win_env_def demo_win_def demo_tools_def)
  from lock_release_iff_acquired[of demo_unix_env demo_home demo_posix
      "Some (Release 3 ''/home/u/.tsh/bin/.lock'')" None demo_posix_locked
      "demo_win_env\<lparr>createFile_fault := Some ERROR_SHARING_VIOLATION\<rparr>" demo_tools demo_win
      None "Some ErrLocked" demo_win]
    demo_lock_unix w
  show ?thesis by simp
qed

text \<open>Claim C2 at a concrete run. \<^verbatim>\<open>lock\<close> on Windows is called twice on the same
  directory with no release in between. The share mode of the first handle,
  \<^verbatim>\<open>FILE_SHARE_READ|FILE_SHARE_WRITE\<close>, allows the second open, so both calls return a
  release function and no error, and both handles are open at once.\<close>

theorem lock_windows_not_exclusive:
  "fst (lock_windows demo_win_env demo_tools demo_win) =
     (Some (Release 1 (demo_tools @ [PathSeparator] @ ''.lock'')), None) \<and>
   fst (lock_windows demo_win_env demo_tools (snd (lock_windows demo_win_env demo_tools demo_win))) =
     (Some (Release 2 (demo_tools @ [PathSeparator] @ ''.lock'')), None) \<and>
   map fst (handles (snd (lock_windows demo_win_env demo_tools
                       (snd (lock_windows demo_win_env demo_tools demo_win))))) = [2, 1]"
  by (simp add: lock_windows_defs demo_win_env_def demo_win_def demo_tools_def)

end
